theory Spec2Isabelle
  imports Main "HOL-Library.Sublist"
begin

section \<open>NwUtilities: connection caches, tunnel construction, file copy and e-mail\<close>

text \<open>
  A shallow embedding of the class \<open>NwUtilities\<close> of \<open>NwUtilties.py\<close>. The class is a
  wrapper around third-party clients (PyEZ, paramiko, scp, smtplib), so the model makes the
  outside world explicit:
  \<^item> every object the code constructs is a \<open>handle\<close>, a fresh number taken from a counter;
  \<^item> every library call is an \<open>op\<close>; it is appended to the \<open>trace\<close> of the state and an
    oracle of the environment (\<open>fails\<close>, which reads the whole history) says whether it raises;
  \<^item> an exception is a value \<open>Error class message\<close>, and a method returns
    \<open>(error + 'a) \<times> state\<close>, \<open>Inl\<close> for a raise;
  \<^item> the three attributes \<open>_junos_device\<close>, \<open>_jumphost_client\<close> and
    \<open>_target_client\<close> are the option-valued fields of the state, \<open>None\<close> as in Python;
  \<^item> the logger's records are collected in \<open>logs\<close>, in order.
  Only exceptions derived from \<open>Exception\<close> are modelled (what \<open>except Exception\<close>
  catches); the logger and attribute reads are taken not to raise. \<open>print\<close> writes to
  the process's standard output and is a call like the others: it can raise.
\<close>

subsection \<open>Values\<close>

type_synonym handle = nat

datatype exc_class =
    ValueError
  | FileNotFoundError
  | ConnectAuthError
  | ConnectError
  | AuthenticationException
  | SSHException
  | OtherException

text \<open>An exception: its class and \<open>str(e)\<close>.\<close>

datatype error = Error exc_class string

datatype level = DEBUG | INFO | WARNING | ERROR

text \<open>A multipart message as \<open>send_email\<close> builds it.\<close>

datatype part = Html string | Attachment string string

record message =
  msg_date :: string
  msg_from :: "string option"
  msg_to :: "string option"
  msg_subject :: "string option"
  msg_cc :: "string option"
  msg_parts :: "part list"

text \<open>The forwarded channel: the jump host's client, the destination and the source address.\<close>

datatype channel =
  Channel handle "string option \<times> int option" "string option \<times> int option"

text \<open>The calls into the client libraries, with the arguments the code passes.\<close>

datatype op =
    Device_new handle "string option" "string option" "string option" "int option"
  | Device_open handle
  | Device_close handle
  | SSHClient_new handle
  | Load_system_host_keys handle
  | Set_missing_host_key_policy handle
  | SSH_connect handle "string option" "string option" "string option" "int option"
      "channel option"
  | Get_transport handle
  | Open_channel handle "string option \<times> int option" "string option \<times> int option"
  | SSH_close handle
  | SCPClient_new handle
  | SCP_put string string
  | SCP_close
  | File_read string
  | SMTP_new string int
  | SMTP_send_message message
  | SMTP_quit
  | Print string

record env =
  fails :: "op list \<Rightarrow> op \<Rightarrow> error option"
  dev_hostname :: "handle \<Rightarrow> string"
  path_exists :: "string \<Rightarrow> bool"
  path_join :: "string \<Rightarrow> string \<Rightarrow> string"
  file_bytes :: "string \<Rightarrow> string"
  now :: string

record state =
  config :: "string \<times> string \<Rightarrow> string option"
  junos_device :: "handle option"
  jumphost_client :: "handle option"
  target_client :: "handle option"
  logs :: "(level \<times> string) list"
  trace :: "op list"
  next_handle :: handle
  stdout :: "string list"

subsection \<open>Python's conventions\<close>

text \<open>\<open>not x\<close> for an \<open>Optional[str]\<close>: \<open>None\<close> and the empty string are false.\<close>

fun truthy :: "string option \<Rightarrow> bool" where
  "truthy None = False"
| "truthy (Some v) = (v \<noteq> [])"

text \<open>What an f-string prints for an optional string and an optional integer.\<close>

fun fmt :: "string option \<Rightarrow> string" where
  "fmt None = ''None''"
| "fmt (Some v) = v"

fun digits :: "nat \<Rightarrow> string" where
  "digits n =
     (if n < 10 then [''0123456789'' ! n]
      else digits (n div 10) @ [''0123456789'' ! (n mod 10)])"

definition str_int :: "int \<Rightarrow> string" where
  "str_int i = (if i < 0 then ''-'' @ digits (nat (- i)) else digits (nat i))"

fun fmt_int :: "int option \<Rightarrow> string" where
  "fmt_int None = ''None''"
| "fmt_int (Some i) = str_int i"

text \<open>\<open>sep.join(xs)\<close>.\<close>

fun join :: "string \<Rightarrow> string list \<Rightarrow> string" where
  "join sep [] = []"
| "join sep [x] = x"
| "join sep (x # y # ys) = x @ sep @ join sep (y # ys)"

fun str_of :: "error \<Rightarrow> string" where
  "str_of (Error c m) = m"

fun class_of :: "error \<Rightarrow> exc_class" where
  "class_of (Error c m) = c"

subsection \<open>The logger and the library calls\<close>

definition logger :: "level \<Rightarrow> string \<Rightarrow> state \<Rightarrow> state" where
  "logger lvl m s = s\<lparr>logs := logs s @ [(lvl, m)]\<rparr>"

text \<open>A library call is recorded, and the environment decides whether it raises.\<close>

definition call :: "env \<Rightarrow> op \<Rightarrow> state \<Rightarrow> error option \<times> state" where
  "call e c s = (fails e (trace s) c, s\<lparr>trace := trace s @ [c]\<rparr>)"

text \<open>A constructor call: the new object takes the next handle.\<close>

definition alloc :: "state \<Rightarrow> state" where
  "alloc s = s\<lparr>next_handle := Suc (next_handle s)\<rparr>"

text \<open>\<open>__init__\<close>: no connection is cached.\<close>

definition init :: "(string \<times> string \<Rightarrow> string option) \<Rightarrow> state" where
  "init cfg =
     \<lparr>config = cfg, junos_device = None, jumphost_client = None, target_client = None,
      logs = [], trace = [], next_handle = 0, stdout = []\<rparr>"

text \<open>\<open>_get_config\<close>: the stored value, or the default when the lookup raises.\<close>

definition get_config :: "string \<Rightarrow> string \<Rightarrow> string \<Rightarrow> state \<Rightarrow> string" where
  "get_config section key dflt s =
     (case config s (section, key) of None \<Rightarrow> dflt | Some v \<Rightarrow> v)"

subsection \<open>Junos connection methods\<close>

definition junos_open_try ::
  "env \<Rightarrow> string option \<Rightarrow> string option \<Rightarrow> string option \<Rightarrow> int option \<Rightarrow> state \<Rightarrow>
   (error + handle) \<times> state" where
  "junos_open_try e hostname username password port s =
     (let s1 = logger INFO (''Connecting to Junos device: '' @ fmt hostname) s;
          dev = next_handle s1
      in case call e (Device_new dev hostname username password port) s1 of
           (Some x, s2) \<Rightarrow> (Inl x, s2)
         | (None, s2) \<Rightarrow>
             (case call e (Device_open dev) (alloc s2) of
                (Some x, s3) \<Rightarrow> (Inl x, s3)
              | (None, s3) \<Rightarrow>
                  (Inr dev,
                   logger INFO (''Successfully connected to '' @ dev_hostname e dev)
                     (s3\<lparr>junos_device := Some dev\<rparr>))))"

definition junos_open_except :: "string option \<Rightarrow> error \<Rightarrow> string" where
  "junos_open_except hostname x =
     (if class_of x = ConnectAuthError
      then ''Authentication failed for '' @ fmt hostname @ '': '' @ str_of x
      else if class_of x = ConnectError
      then ''Connection failed to '' @ fmt hostname @ '': '' @ str_of x
      else ''Unexpected error connecting to '' @ fmt hostname @ '': '' @ str_of x)"

definition junos_open_connection ::
  "env \<Rightarrow> string option \<Rightarrow> string option \<Rightarrow> string option \<Rightarrow> int option \<Rightarrow> state \<Rightarrow>
   (error + handle) \<times> state" where
  "junos_open_connection e hostname username password port s =
     (case junos_device s of
        Some d \<Rightarrow> (Inr d, logger INFO ''Junos connection already open'' s)
      | None \<Rightarrow>
          (case junos_open_try e hostname username password port s of
             (Inl x, s') \<Rightarrow> (Inl x, logger ERROR (junos_open_except hostname x) s')
           | (Inr d, s') \<Rightarrow> (Inr d, s')))"

definition junos_close_connection :: "env \<Rightarrow> state \<Rightarrow> (error + unit) \<times> state" where
  "junos_close_connection e s =
     (case junos_device s of
        Some d \<Rightarrow>
          (let hostname = dev_hostname e d
           in case call e (Device_close d) s of
                (Some x, s1) \<Rightarrow>
                  (Inr (), logger ERROR (''Error closing Junos connection: '' @ str_of x) s1)
              | (None, s1) \<Rightarrow>
                  (Inr (),
                   logger INFO (''Connection to '' @ hostname @ '' closed'')
                     (s1\<lparr>junos_device := None\<rparr>)))
      | None \<Rightarrow> (Inr (), logger WARNING ''No active Junos connection to close'' s))"

subsection \<open>Jumphost connection methods\<close>

definition jumphost_connect_try ::
  "env \<Rightarrow> string option \<Rightarrow> string option \<Rightarrow> string option \<Rightarrow> int option \<Rightarrow> state \<Rightarrow>
   (error + handle) \<times> state" where
  "jumphost_connect_try e hostname username password port s =
     (let s1 = logger INFO
                 (''Connecting to jumphost: '' @ fmt username @ ''@'' @ fmt hostname @ '':''
                    @ fmt_int port) s;
          c = next_handle s1
      in case call e (SSHClient_new c) s1 of
           (Some x, s2) \<Rightarrow> (Inl x, s2)
         | (None, s2) \<Rightarrow>
        (case call e (Load_system_host_keys c) (alloc s2) of
           (Some x, s3) \<Rightarrow> (Inl x, s3)
         | (None, s3) \<Rightarrow>
        (case call e (Set_missing_host_key_policy c) s3 of
           (Some x, s4) \<Rightarrow> (Inl x, s4)
         | (None, s4) \<Rightarrow>
        (case call e (SSH_connect c hostname username password port None) s4 of
           (Some x, s5) \<Rightarrow> (Inl x, s5)
         | (None, s5) \<Rightarrow>
             (Inr c,
              logger INFO ''Successfully connected to jumphost''
                (s5\<lparr>jumphost_client := Some c\<rparr>))))))"

definition jumphost_connect_except :: "error \<Rightarrow> string" where
  "jumphost_connect_except x =
     (if class_of x = AuthenticationException
      then ''Authentication failed for jumphost: '' @ str_of x
      else if class_of x = SSHException
      then ''SSH connection failed to jumphost: '' @ str_of x
      else ''Unexpected error connecting to jumphost: '' @ str_of x)"

definition jumphost_connect ::
  "env \<Rightarrow> string option \<Rightarrow> string option \<Rightarrow> string option \<Rightarrow> int option \<Rightarrow> state \<Rightarrow>
   (error + handle) \<times> state" where
  "jumphost_connect e hostname username password port s =
     (case jumphost_client s of
        Some c \<Rightarrow> (Inr c, logger INFO ''Jumphost connection already open'' s)
      | None \<Rightarrow>
          (case jumphost_connect_try e hostname username password port s of
             (Inl x, s') \<Rightarrow> (Inl x, logger ERROR (jumphost_connect_except x) s')
           | (Inr c, s') \<Rightarrow> (Inr c, s')))"

definition jumphost_disconnect :: "env \<Rightarrow> state \<Rightarrow> (error + unit) \<times> state" where
  "jumphost_disconnect e s =
     (case jumphost_client s of
        Some c \<Rightarrow>
          (case call e (SSH_close c) s of
             (Some x, s1) \<Rightarrow>
               (Inr (), logger ERROR (''Error closing jumphost connection: '' @ str_of x) s1)
           | (None, s1) \<Rightarrow>
               (Inr (), logger INFO ''Jumphost connection closed''
                          (s1\<lparr>jumphost_client := None\<rparr>)))
      | None \<Rightarrow> (Inr (), logger WARNING ''No active jumphost connection to close'' s))"

subsection \<open>The tunnel through the jumphost\<close>

text \<open>
  The \<open>try\<close> block of \<open>jumphost_transport_connect\<close>. When a call raises, the block
  ends with the exception and with the local variables \<open>target\<close> and \<open>jumphost\<close> as
  far as they are bound, which is what the handler's \<open>in locals()\<close> tests read.
\<close>

definition transport_try ::
  "env \<Rightarrow> string option \<Rightarrow> string option \<Rightarrow> string option \<Rightarrow> int option \<Rightarrow>
   string option \<Rightarrow> string option \<Rightarrow> string option \<Rightarrow> int option \<Rightarrow> state \<Rightarrow>
   ((error \<times> handle option \<times> handle option) + (handle \<times> handle)) \<times> state" where
  "transport_try e hostname username password port dst_host dst_username dst_password dst_port s =
     (let s1 = logger INFO
                 (''Connecting to jumphost: '' @ fmt username @ ''@'' @ fmt hostname @ '':''
                    @ fmt_int port) s;
          jumphost = next_handle s1
      in case call e (SSHClient_new jumphost) s1 of
           (Some x, s2) \<Rightarrow> (Inl (x, None, None), s2)
         | (None, s2) \<Rightarrow>
        (case call e (Load_system_host_keys jumphost) (alloc s2) of
           (Some x, s3) \<Rightarrow> (Inl (x, None, Some jumphost), s3)
         | (None, s3) \<Rightarrow>
        (case call e (Set_missing_host_key_policy jumphost) s3 of
           (Some x, s4) \<Rightarrow> (Inl (x, None, Some jumphost), s4)
         | (None, s4) \<Rightarrow>
        (case call e (SSH_connect jumphost hostname username password port None) s4 of
           (Some x, s5) \<Rightarrow> (Inl (x, None, Some jumphost), s5)
         | (None, s5) \<Rightarrow>
        (case call e (Get_transport jumphost)
                (logger INFO ''Jumphost connected, creating tunnel to target device'' s5) of
           (Some x, s6) \<Rightarrow> (Inl (x, None, Some jumphost), s6)
         | (None, s6) \<Rightarrow>
        (let src_address = (hostname, port);
             dest_address = (dst_host, dst_port)
         in case call e (Open_channel jumphost dest_address src_address) s6 of
           (Some x, s7) \<Rightarrow> (Inl (x, None, Some jumphost), s7)
         | (None, s7) \<Rightarrow>
        (let jumpbox_channel = Channel jumphost dest_address src_address;
             s8 = logger INFO (''Connecting to target device: '' @ fmt dst_host) s7;
             target = next_handle s8
         in case call e (SSHClient_new target) s8 of
           (Some x, s9) \<Rightarrow> (Inl (x, None, Some jumphost), s9)
         | (None, s9) \<Rightarrow>
        (case call e (Set_missing_host_key_policy target) (alloc s9) of
           (Some x, s10) \<Rightarrow> (Inl (x, Some target, Some jumphost), s10)
         | (None, s10) \<Rightarrow>
        (case call e (SSH_connect target dst_host dst_username dst_password dst_port
                        (Some jumpbox_channel)) s10 of
           (Some x, s11) \<Rightarrow> (Inl (x, Some target, Some jumphost), s11)
         | (None, s11) \<Rightarrow>
             (Inr (target, jumphost),
              logger INFO (''Successfully connected to target device: '' @ fmt dst_host)
                (s11\<lparr>target_client := Some target, jumphost_client := Some jumphost\<rparr>))
        )))))))))"

text \<open>
  The handler: log, close \<open>target\<close> and then \<open>jumphost\<close> where bound, re-raise. The two
  closes stand unguarded in the handler, so an exception of a close leaves the handler at
  once and is the one that propagates.
\<close>

definition close_if_bound :: "env \<Rightarrow> handle option \<Rightarrow> state \<Rightarrow> error option \<times> state" where
  "close_if_bound e c s = (case c of None \<Rightarrow> (None, s) | Some h \<Rightarrow> call e (SSH_close h) s)"

definition transport_except ::
  "env \<Rightarrow> error \<Rightarrow> handle option \<Rightarrow> handle option \<Rightarrow> state \<Rightarrow> error \<times> state" where
  "transport_except e x target jumphost s =
     (let s1 = logger ERROR
                 (''Failed to establish jumphost transport connection: '' @ str_of x) s
      in case close_if_bound e target s1 of
           (Some y, s2) \<Rightarrow> (y, s2)
         | (None, s2) \<Rightarrow>
             (case close_if_bound e jumphost s2 of
                (Some y, s3) \<Rightarrow> (y, s3)
              | (None, s3) \<Rightarrow> (x, s3)))"

definition jumphost_transport_connect ::
  "env \<Rightarrow> string option \<Rightarrow> string option \<Rightarrow> string option \<Rightarrow> int option \<Rightarrow>
   string option \<Rightarrow> string option \<Rightarrow> string option \<Rightarrow> int option \<Rightarrow> state \<Rightarrow>
   (error + (handle \<times> handle)) \<times> state" where
  "jumphost_transport_connect e hostname username password port
       dst_host dst_username dst_password dst_port s =
     (if \<not> truthy dst_host
      then (Inl (Error ValueError ''dst_host must be set for jumphost transport connection''), s)
      else
        (case (target_client s, jumphost_client s) of
           (Some t, Some j) \<Rightarrow>
             (Inr (t, j), logger INFO ''Jumphost transport connection already open'' s)
         | _ \<Rightarrow>
             (case transport_try e hostname username password port
                     dst_host dst_username dst_password dst_port s of
                (Inl (x, target, jumphost), s') \<Rightarrow>
                  (case transport_except e x target jumphost s' of
                     (y, s'') \<Rightarrow> (Inl y, s''))
              | (Inr r, s') \<Rightarrow> (Inr r, s'))))"

definition jumphost_transport_disconnect :: "env \<Rightarrow> state \<Rightarrow> (error + unit) \<times> state" where
  "jumphost_transport_disconnect e s =
     (let s1 =
            (case target_client s of
               Some t \<Rightarrow>
                 (case call e (SSH_close t) s of
                    (Some x, s') \<Rightarrow>
                      logger ERROR (''Error closing target connection: '' @ str_of x) s'
                  | (None, s') \<Rightarrow>
                      logger INFO ''Target connection closed'' (s'\<lparr>target_client := None\<rparr>))
             | None \<Rightarrow> s);
          s2 =
            (case jumphost_client s1 of
               Some j \<Rightarrow>
                 (case call e (SSH_close j) s1 of
                    (Some x, s') \<Rightarrow>
                      logger ERROR (''Error closing jumphost connection: '' @ str_of x) s'
                  | (None, s') \<Rightarrow>
                      logger INFO ''Jumphost connection closed''
                        (s'\<lparr>jumphost_client := None\<rparr>))
             | None \<Rightarrow> s1)
      in (Inr (), s2))"

subsection \<open>File transfer\<close>

text \<open>
  \<open>with SCPClient(jumphost.get_transport()) as scp: scp.put(source, destination)\<close>.
  Leaving the block closes the client, also when \<open>put\<close> raised; an exception of the
  close takes the place of the one in flight.
\<close>

definition scp_put ::
  "env \<Rightarrow> handle \<Rightarrow> string \<Rightarrow> string \<Rightarrow> state \<Rightarrow> error option \<times> state" where
  "scp_put e jumphost source destination s =
     (case call e (Get_transport jumphost) s of
        (Some x, s1) \<Rightarrow> (Some x, s1)
      | (None, s1) \<Rightarrow>
     (case call e (SCPClient_new jumphost) s1 of
        (Some x, s2) \<Rightarrow> (Some x, s2)
      | (None, s2) \<Rightarrow>
     (case call e (SCP_put source destination) s2 of
        (Some x, s3) \<Rightarrow>
          (case call e SCP_close s3 of
             (Some y, s4) \<Rightarrow> (Some y, s4)
           | (None, s4) \<Rightarrow> (Some x, s4))
      | (None, s3) \<Rightarrow> call e SCP_close s3)))"

definition copy_local_try ::
  "env \<Rightarrow> string \<Rightarrow> string \<Rightarrow> bool \<Rightarrow> state \<Rightarrow> (error + bool) \<times> state" where
  "copy_local_try e source destination use_jumphost s =
     (if use_jumphost then
        (case jumphost_connect e None None None (Some 22)
                (logger INFO
                   (''Copying '' @ source @ '' to '' @ destination @ '' via jumphost'') s) of
           (Inl x, s1) \<Rightarrow> (Inl x, s1)
         | (Inr jumphost, s1) \<Rightarrow>
             (case scp_put e jumphost source destination s1 of
                (Some x, s2) \<Rightarrow> (Inl x, s2)
              | (None, s2) \<Rightarrow>
                  (Inr True,
                   logger INFO
                     (''Successfully copied '' @ source @ '' to '' @ destination) s2)))
      else
        (Inr False, logger ERROR ''Direct SCP not implemented. Use use_jumphost=True'' s))"

fun copy_file_local_to_remote ::
  "env \<Rightarrow> string option \<Rightarrow> string option \<Rightarrow> bool \<Rightarrow> state \<Rightarrow> (error + bool) \<times> state" where
  "copy_file_local_to_remote e (Some source) (Some destination) use_jumphost s =
     (if source = [] \<or> destination = []
      then (Inr False, logger ERROR ''Source and destination paths must be provided'' s)
      else if \<not> path_exists e source
      then (Inl (Error FileNotFoundError (''Source file not found: '' @ source)), s)
      else
        (case copy_local_try e source destination use_jumphost s of
           (Inl x, s') \<Rightarrow> (Inl x, logger ERROR (''Failed to copy file: '' @ str_of x) s')
         | (Inr b, s') \<Rightarrow> (Inr b, s')))"
| "copy_file_local_to_remote e src_path dst_path use_jumphost s =
     (Inr False, logger ERROR ''Source and destination paths must be provided'' s)"

subsection \<open>E-mail\<close>

definition ln :: "nat \<Rightarrow> string \<Rightarrow> string" where
  "ln n t = replicate n (CHR '' '') @ t @ [CHR 0x0A]"

text \<open>The HTML body of the f-string, line by line with its indentation.\<close>

definition html_body :: "string \<Rightarrow> string \<Rightarrow> string \<Rightarrow> string" where
  "html_body greet body email_footer =
     concat
       [ln 12 ''<html>'',
        ln 16 ''<head>'',
        ln 20 (''<meta charset='' @ [CHR 0x22] @ ''UTF-8'' @ [CHR 0x22] @ ''>''),
        ln 20 ''<style>'',
        ln 24 ''body {'',
        ln 28 ''font-family: Arial, sans-serif;'',
        ln 28 ''line-height: 1.6;'',
        ln 28 ''color: #333333;'',
        ln 24 ''}'',
        ln 20 ''</style>'',
        ln 16 ''</head>'',
        ln 16 ''<body>'',
        ln 20 (''<p>'' @ greet @ ''</p>''),
        ln 20 (''<p>'' @ body @ ''</p>''),
        ln 20 ''<p></p>'',
        ln 20 ''<p>- Grasshopper Automation</p>'',
        ln 20 (if email_footer \<noteq> [] then ''<p>- '' @ email_footer @ ''</p>'' else []),
        ln 16 ''</body>'',
        ln 12 ''</html>'']
     @ replicate 12 (CHR '' '')"

text \<open>The names of the required parameters whose value is false, in the dict's order.\<close>

definition missing_params ::
  "string option \<Rightarrow> string option \<Rightarrow> string option \<Rightarrow> string option \<Rightarrow> string option \<Rightarrow>
   string list" where
  "missing_params from_addr to_addr subject greet body =
     map fst
       (filter (\<lambda>(param, v). \<not> truthy v)
          [(''email_from'', from_addr), (''email_to'', to_addr), (''email_subject'', subject),
           (''greeting'', greet), (''email_body'', body)])"

text \<open>
  The attachment loop: a name whose path does not exist is skipped with a warning, the
  others are opened, read and attached; a failing read ends the loop with its exception.
\<close>

fun attach_files ::
  "env \<Rightarrow> string \<Rightarrow> string list \<Rightarrow> part list \<Rightarrow> state \<Rightarrow> (error + part list) \<times> state" where
  "attach_files e attach_path [] ps s = (Inr ps, s)"
| "attach_files e attach_path (filename # rest) ps s =
     (let file_path = path_join e attach_path filename
      in if \<not> path_exists e file_path
         then attach_files e attach_path rest ps
                (logger WARNING (''Attachment not found: '' @ file_path) s)
         else
           (case call e (File_read file_path) s of
              (Some x, s1) \<Rightarrow> (Inl x, s1)
            | (None, s1) \<Rightarrow>
                attach_files e attach_path rest
                  (ps @ [Attachment filename (file_bytes e file_path)])
                  (logger DEBUG (''Attached: '' @ filename) s1)))"

text \<open>\<open>if attachments and attach_path\<close>: both must be non-empty for the loop to run.\<close>

fun attach_all ::
  "env \<Rightarrow> string list option \<Rightarrow> string option \<Rightarrow> part list \<Rightarrow> state \<Rightarrow>
   (error + part list) \<times> state" where
  "attach_all e (Some attachments) (Some attach_path) ps s =
     (if attachments \<noteq> [] \<and> attach_path \<noteq> []
      then attach_files e attach_path attachments ps
             (logger INFO
                (''Attaching '' @ str_int (int (length attachments)) @ '' file(s)'') s)
      else (Inr ps, s))"
| "attach_all e attachments attach_path ps s = (Inr ps, s)"

text \<open>
  \<open>with smtplib.SMTP(smtp_server, smtp_port) as server: server.send_message(msg)\<close>;
  leaving the block sends QUIT, also after a failed send.
\<close>

definition smtp_send :: "env \<Rightarrow> string \<Rightarrow> int \<Rightarrow> message \<Rightarrow> state \<Rightarrow> error option \<times> state" where
  "smtp_send e smtp_server smtp_port msg s =
     (case call e (SMTP_new smtp_server smtp_port) s of
        (Some x, s1) \<Rightarrow> (Some x, s1)
      | (None, s1) \<Rightarrow>
     (case call e (SMTP_send_message msg) s1 of
        (Some x, s2) \<Rightarrow>
          (case call e SMTP_quit s2 of
             (Some y, s3) \<Rightarrow> (Some y, s3)
           | (None, s3) \<Rightarrow> (Some x, s3))
      | (None, s2) \<Rightarrow> call e SMTP_quit s2))"

fun cc_header :: "string list option \<Rightarrow> string option" where
  "cc_header None = None"
| "cc_header (Some []) = None"
| "cc_header (Some (c # cs)) = Some (join '', '' (c # cs))"

text \<open>
  The \<open>try\<close> block of \<open>send_email\<close>. Its last statement before \<open>return True\<close> is
  the \<open>print\<close> of the check mark (U+2713, three bytes in UTF-8) and the recipient; an
  exception of that \<open>print\<close> reaches the handler like any other, after the relay has
  accepted the message.
\<close>

definition send_email_try ::
  "env \<Rightarrow> string option \<Rightarrow> string option \<Rightarrow> string option \<Rightarrow> string option \<Rightarrow>
   string option \<Rightarrow> string list option \<Rightarrow> string option \<Rightarrow> string list option \<Rightarrow>
   string \<Rightarrow> int \<Rightarrow> state \<Rightarrow> (error + bool) \<times> state" where
  "send_email_try e from_addr to_addr subject body greet cc_list attach_path attachments
       smtp_server smtp_port s =
     (let s1 = logger INFO (''Preparing email to '' @ fmt to_addr) s;
          email_footer = get_config ''email_data'' ''email_footer'' [] s1;
          html = html_body (fmt greet) (fmt body) email_footer
      in case attach_all e attachments attach_path [Html html] s1 of
           (Inl x, s2) \<Rightarrow> (Inl x, s2)
         | (Inr ps, s2) \<Rightarrow>
             (let msg = \<lparr>msg_date = now e, msg_from = from_addr, msg_to = to_addr,
                         msg_subject = subject, msg_cc = cc_header cc_list, msg_parts = ps\<rparr>
              in case smtp_send e smtp_server smtp_port msg
                        (logger INFO
                           (''Sending email via '' @ smtp_server @ '':'' @ str_int smtp_port)
                           s2) of
                   (Some x, s3) \<Rightarrow> (Inl x, s3)
                 | (None, s3) \<Rightarrow>
                     (let line = [CHR 0xE2, CHR 0x9C, CHR 0x93] @ '' Email sent to ''
                                   @ fmt to_addr
                      in case call e (Print line)
                                (logger INFO (''Email sent successfully to '' @ fmt to_addr)
                                   s3) of
                           (Some x, s4) \<Rightarrow> (Inl x, s4)
                         | (None, s4) \<Rightarrow>
                             (Inr True, s4\<lparr>stdout := stdout s4 @ [line]\<rparr>))))"

definition send_email ::
  "env \<Rightarrow> string option \<Rightarrow> string option \<Rightarrow> string option \<Rightarrow> string option \<Rightarrow>
   string option \<Rightarrow> string list option \<Rightarrow> string option \<Rightarrow> string list option \<Rightarrow>
   string \<Rightarrow> int \<Rightarrow> state \<Rightarrow> (error + bool) \<times> state" where
  "send_email e email_from email_to email_subject email_body greeting cc_emails
       destination_path attach_list smtp_server smtp_port s =
     (if \<not> list_all truthy [email_from, email_to, email_subject, greeting, email_body]
      then
        (Inl (Error ValueError
                (''Missing required email parameters: '' @
                   join '', ''
                     (missing_params email_from email_to email_subject greeting email_body))),
         s)
      else
        (case send_email_try e email_from email_to email_subject email_body greeting
                cc_emails destination_path attach_list smtp_server smtp_port s of
           (Inl x, s') \<Rightarrow> (Inl x, logger ERROR (''Failed to send email: '' @ str_of x) s')
         | (Inr b, s') \<Rightarrow> (Inr b, s')))"

subsection \<open>Allocated handles\<close>

text \<open>
  Every cached handle was handed out by the counter. This holds after \<open>__init__\<close> and is
  kept by every method (lemmas \<open>handles_allocated_*\<close> below).
\<close>

fun allocated :: "handle \<Rightarrow> handle option \<Rightarrow> bool" where
  "allocated n None = True"
| "allocated n (Some h) = (h < n)"

definition handles_allocated :: "state \<Rightarrow> bool" where
  "handles_allocated s =
     (allocated (next_handle s) (junos_device s) \<and>
      allocated (next_handle s) (jumphost_client s) \<and>
      allocated (next_handle s) (target_client s))"

text \<open>
  Whether a library call is made on the object \<open>j\<close>: as the receiver, as the object
  under construction, or as the owner of the channel handed to \<open>connect\<close>.
\<close>

fun uses_handle :: "handle \<Rightarrow> op \<Rightarrow> bool" where
  "uses_handle j (Device_new h a b c d) = (h = j)"
| "uses_handle j (Device_open h) = (h = j)"
| "uses_handle j (Device_close h) = (h = j)"
| "uses_handle j (SSHClient_new h) = (h = j)"
| "uses_handle j (Load_system_host_keys h) = (h = j)"
| "uses_handle j (Set_missing_host_key_policy h) = (h = j)"
| "uses_handle j (SSH_connect h a b c d None) = (h = j)"
| "uses_handle j (SSH_connect h a b c d (Some (Channel k dst src))) = (h = j \<or> k = j)"
| "uses_handle j (Get_transport h) = (h = j)"
| "uses_handle j (Open_channel h dst src) = (h = j)"
| "uses_handle j (SSH_close h) = (h = j)"
| "uses_handle j (SCPClient_new h) = (h = j)"
| "uses_handle j c = False"

subsection \<open>Concrete worlds and calls\<close>

text \<open>\<open>os.path.join\<close> of two components, as \<open>posixpath\<close> computes it.\<close>

definition posix_join :: "string \<Rightarrow> string \<Rightarrow> string" where
  "posix_join a b =
     (if b \<noteq> [] \<and> hd b = CHR ''/'' then b
      else if a = [] \<or> last a = CHR ''/'' then a @ b
      else a @ ''/'' @ b)"

text \<open>
  A world in which the only existing path is \<open>/tmp/a.txt\<close> and a call raises as \<open>f\<close>
  says, whatever happened before.
\<close>

definition world :: "(op \<Rightarrow> error option) \<Rightarrow> env" where
  "world f =
     \<lparr>fails = (\<lambda>h c. f c), dev_hostname = (\<lambda>h. ''router1''),
      path_exists = (\<lambda>p. p = ''/tmp/a.txt''), path_join = posix_join,
      file_bytes = (\<lambda>p. ''data''), now = ''Mon, 01 Jan 2024 00:00:00 ''\<rparr>"

fun all_succeed :: "op \<Rightarrow> error option" where
  "all_succeed c = None"

fun target_down :: "op \<Rightarrow> error option" where
  "target_down (SSH_connect h a b c d (Some ch)) =
     Some (Error SSHException ''target unreachable'')"
| "target_down c = None"

fun target_down_close_fails :: "op \<Rightarrow> error option" where
  "target_down_close_fails (SSH_connect h a b c d (Some ch)) =
     Some (Error SSHException ''target unreachable'')"
| "target_down_close_fails (SSH_close h) =
     (if h = 1 then Some (Error OtherException ''close failed'') else None)"
| "target_down_close_fails c = None"

fun close_fails :: "op \<Rightarrow> error option" where
  "close_fails (Device_close h) = Some (Error OtherException ''session already gone'')"
| "close_fails (SSH_close h) = Some (Error OtherException ''socket is closed'')"
| "close_fails c = None"




definition fresh :: state where
  "fresh = init (\<lambda>k. None)"

text \<open>The tunnel call of the examples, with the target host as its only varying argument.\<close>

definition tunnel :: "env \<Rightarrow> string option \<Rightarrow> state \<Rightarrow> (error + handle \<times> handle) \<times> state" where
  "tunnel e dst_host s =
     jumphost_transport_connect e (Some ''jump'') (Some ''u'') (Some ''p'') (Some 22)
       dst_host (Some ''du'') (Some ''dp'') (Some 22) s"

text \<open>The state after a successful \<open>jumphost_connect\<close> on a new manager.\<close>

definition jump_cached :: state where
  "jump_cached =
     snd (jumphost_connect (world all_succeed) (Some ''jump'') (Some ''u'') (Some ''p'')
            (Some 22) fresh)"

text \<open>The e-mail call of the examples: sender, directory and attachment names vary.\<close>

definition mail ::
  "env \<Rightarrow> string option \<Rightarrow> string option \<Rightarrow> string option \<Rightarrow> string list \<Rightarrow>
   (error + bool) \<times> state" where
  "mail e email_to greeting dir names =
     send_email e (Some ''ops@example.com'') email_to (Some ''Report'') (Some ''Body'')
       greeting None dir (Some names) ''localhost'' 25 fresh"

text \<open>The state after a successful \<open>junos_open_connection\<close> on a new manager.\<close>

definition junos_cached :: state where
  "junos_cached =
     snd (junos_open_connection (world all_succeed) (Some ''router1'') (Some ''u'')
            (Some ''p'') (Some 22) fresh)"


section \<open>Properties\<close>

lemmas step_defs = call_def logger_def alloc_def Let_def

lemmas example_defs = world_def fresh_def init_def tunnel_def jump_cached_def mail_def

subsection \<open>What a successful connect leaves in the cache\<close>

lemma junos_open_caches:
  "junos_open_connection e h u p pt s = (Inr d, s') \<Longrightarrow> junos_device s' = Some d"
  by (auto simp: junos_open_connection_def junos_open_try_def step_defs
           split: option.splits sum.splits prod.splits)

lemma jumphost_connect_caches:
  "jumphost_connect e h u p pt s = (Inr c, s') \<Longrightarrow> jumphost_client s' = Some c"
  by (auto simp: jumphost_connect_def jumphost_connect_try_def step_defs
           split: option.splits sum.splits prod.splits)

lemma transport_connect_caches:
  "jumphost_transport_connect e h u p pt dh du dp dpt s = (Inr (t, j), s') \<Longrightarrow>
   target_client s' = Some t \<and> jumphost_client s' = Some j"
  by (auto simp: jumphost_transport_connect_def transport_try_def transport_except_def
                 close_if_bound_def step_defs
           split: if_splits option.splits sum.splits prod.splits)

subsection \<open>The counter stays ahead of the cache\<close>

lemma handles_allocated_init: "handles_allocated (init cfg)"
  by (simp add: handles_allocated_def init_def)

lemma handles_allocated_junos_open:
  "handles_allocated s \<Longrightarrow> handles_allocated (snd (junos_open_connection e h u p pt s))"
  by (cases "junos_device s"; cases "jumphost_client s"; cases "target_client s")
     (auto simp: handles_allocated_def junos_open_connection_def junos_open_try_def step_defs
           split: option.splits sum.splits prod.splits)

lemma handles_allocated_jumphost_connect:
  "handles_allocated s \<Longrightarrow> handles_allocated (snd (jumphost_connect e h u p pt s))"
  by (cases "junos_device s"; cases "jumphost_client s"; cases "target_client s")
     (auto simp: handles_allocated_def jumphost_connect_def jumphost_connect_try_def step_defs
           split: option.splits sum.splits prod.splits)

lemma allocated_mono: "allocated n c \<Longrightarrow> n \<le> m \<Longrightarrow> allocated m c"
  by (cases c) auto

lemma transport_try_raises:
  "transport_try e h u p pt dh du dp dpt s = (Inl z, s') \<Longrightarrow>
   target_client s' = target_client s \<and> jumphost_client s' = jumphost_client s \<and>
   junos_device s' = junos_device s \<and> next_handle s \<le> next_handle s'"
  by (auto simp: transport_try_def step_defs split: option.splits)

lemma transport_try_returns:
  "transport_try e h u p pt dh du dp dpt s = (Inr (t, j), s') \<Longrightarrow>
   target_client s' = Some t \<and> jumphost_client s' = Some j \<and>
   junos_device s' = junos_device s \<and> j = next_handle s \<and> t = Suc (next_handle s) \<and>
   next_handle s' = Suc (Suc (next_handle s))"
  by (auto simp: transport_try_def step_defs split: option.splits)

lemma transport_except_frame:
  "transport_except e x t j s = (y, s') \<Longrightarrow>
   target_client s' = target_client s \<and> jumphost_client s' = jumphost_client s \<and>
   junos_device s' = junos_device s \<and> next_handle s' = next_handle s"
  by (auto simp: transport_except_def close_if_bound_def step_defs split: option.splits)

lemma handles_allocated_transport_connect:
  assumes "handles_allocated s"
  shows "handles_allocated (snd (jumphost_transport_connect e h u p pt dh du dp dpt s))"
proof (cases "\<not> truthy dh \<or> (target_client s \<noteq> None \<and> jumphost_client s \<noteq> None)")
  case True
  with assms show ?thesis
    by (auto simp: jumphost_transport_connect_def handles_allocated_def logger_def)
next
  case False
  obtain r s1 where tr: "transport_try e h u p pt dh du dp dpt s = (r, s1)"
    by (cases "transport_try e h u p pt dh du dp dpt s")
  show ?thesis
  proof (cases r)
    case (Inl z)
    obtain x t j where z: "z = (x, t, j)" by (cases z)
    obtain y s2 where exc: "transport_except e x t j s1 = (y, s2)"
      by (cases "transport_except e x t j s1")
    from False tr Inl z exc
    have res: "snd (jumphost_transport_connect e h u p pt dh du dp dpt s) = s2"
      by (auto simp: jumphost_transport_connect_def split: option.splits)
    from transport_try_raises [OF tr [unfolded Inl]] transport_except_frame [OF exc] assms
    show ?thesis
      unfolding res handles_allocated_def by (auto intro: allocated_mono)
  next
    case (Inr tj)
    obtain t j where tj: "tj = (t, j)" by (cases tj)
    from False tr Inr
    have res: "snd (jumphost_transport_connect e h u p pt dh du dp dpt s) = s1"
      by (auto simp: jumphost_transport_connect_def split: option.splits)
    from transport_try_returns [OF tr [unfolded Inr tj]] assms
    show ?thesis
      unfolding res handles_allocated_def
      by (cases "junos_device s") auto
  qed
qed

lemma handles_allocated_close:
  "handles_allocated s \<Longrightarrow> handles_allocated (snd (junos_close_connection e s))"
  "handles_allocated s \<Longrightarrow> handles_allocated (snd (jumphost_disconnect e s))"
  "handles_allocated s \<Longrightarrow> handles_allocated (snd (jumphost_transport_disconnect e s))"
  by (cases "junos_device s"; cases "jumphost_client s"; cases "target_client s";
      auto simp: handles_allocated_def junos_close_connection_def jumphost_disconnect_def
                 jumphost_transport_disconnect_def step_defs
           split: option.splits sum.splits prod.splits)+

lemma scp_put_frame:
  "scp_put e j src dst s = (r, s') \<Longrightarrow>
   junos_device s' = junos_device s \<and> jumphost_client s' = jumphost_client s \<and>
   target_client s' = target_client s \<and> next_handle s' = next_handle s"
  by (auto simp: scp_put_def step_defs split: option.splits)

lemma handles_allocated_copy:
  assumes "handles_allocated s"
  shows "handles_allocated (snd (copy_file_local_to_remote e src_path dst_path use_jumphost s))"
proof (cases "truthy src_path \<and> truthy dst_path \<and> path_exists e (fmt src_path) \<and> use_jumphost")
  case False
  with assms show ?thesis
    by (cases src_path; cases dst_path)
       (auto simp: handles_allocated_def copy_local_try_def logger_def)
next
  case True
  then obtain source destination where args: "src_path = Some source" "dst_path = Some destination"
    "source \<noteq> []" "destination \<noteq> []" "path_exists e source" "use_jumphost"
    by (cases src_path; cases dst_path) auto
  let ?s0 = "logger INFO (''Copying '' @ source @ '' to '' @ destination @ '' via jumphost'') s"
  obtain r s1 where con: "jumphost_connect e None None None (Some 22) ?s0 = (r, s1)"
    by (cases "jumphost_connect e None None None (Some 22) ?s0")
  from assms have "handles_allocated ?s0"
    by (simp add: handles_allocated_def logger_def)
  from handles_allocated_jumphost_connect [OF this, of e None None None "Some 22"] con
  have s1: "handles_allocated s1" by simp
  show ?thesis
  proof (cases r)
    case (Inl x)
    with args con s1 show ?thesis
      by (simp add: copy_local_try_def handles_allocated_def logger_def)
  next
    case (Inr j)
    obtain q s2 where put: "scp_put e j source destination s1 = (q, s2)"
      by (cases "scp_put e j source destination s1")
    from scp_put_frame [OF put] s1 have "handles_allocated s2"
      by (simp add: handles_allocated_def)
    with args con Inr put show ?thesis
      by (cases q) (simp_all add: copy_local_try_def handles_allocated_def logger_def)
  qed
qed

lemma attach_files_frame:
  "attach_files e dir names ps s = (r, s') \<Longrightarrow>
   junos_device s' = junos_device s \<and> jumphost_client s' = jumphost_client s \<and>
   target_client s' = target_client s \<and> next_handle s' = next_handle s"
proof (induction names arbitrary: ps s)
  case Nil
  then show ?case by simp
next
  case (Cons n names)
  then show ?case
    by (fastforce simp: step_defs split: if_splits option.splits)
qed

lemma send_email_frame:
  "send_email e email_from email_to email_subject email_body greeting cc_emails
     destination_path attach_list smtp_server smtp_port s = (r, s') \<Longrightarrow>
   junos_device s' = junos_device s \<and> jumphost_client s' = jumphost_client s \<and>
   target_client s' = target_client s \<and> next_handle s' = next_handle s"
proof -
  assume run: "send_email e email_from email_to email_subject email_body greeting cc_emails
     destination_path attach_list smtp_server smtp_port s = (r, s')"
  let ?s1 = "logger INFO (''Preparing email to '' @ fmt email_to) s"
  let ?ps = "[Html (html_body (fmt greeting) (fmt email_body)
                     (get_config ''email_data'' ''email_footer'' [] ?s1))]"
  obtain q s2 where att: "attach_all e attach_list destination_path ?ps ?s1 = (q, s2)"
    by (cases "attach_all e attach_list destination_path ?ps ?s1")
  have "junos_device s2 = junos_device s \<and> jumphost_client s2 = jumphost_client s \<and>
        target_client s2 = target_client s \<and> next_handle s2 = next_handle s"
  proof (cases "\<exists>names dir. attach_list = Some names \<and> destination_path = Some dir \<and>
                  names \<noteq> [] \<and> dir \<noteq> []")
    case True
    then obtain names dir where "attach_list = Some names" "destination_path = Some dir"
      "names \<noteq> []" "dir \<noteq> []" by blast
    with att attach_files_frame [of e dir names ?ps
           "logger INFO (''Attaching '' @ str_int (int (length names)) @ '' file(s)'') ?s1" q s2]
    show ?thesis by (simp add: logger_def)
  next
    case False
    with att have "s2 = ?s1"
      by (cases attach_list; cases destination_path) (auto split: if_splits)
    then show ?thesis by (simp add: logger_def)
  qed
  with run att show ?thesis
    by (auto simp: send_email_def send_email_try_def smtp_send_def step_defs
             simp del: attach_all.simps
             split: if_splits sum.splits option.splits)
qed

lemma handles_allocated_send_email:
  assumes "handles_allocated s"
  shows "handles_allocated
           (snd (send_email e email_from email_to email_subject email_body greeting cc_emails
                   destination_path attach_list smtp_server smtp_port s))"
  using assms
    send_email_frame [of e email_from email_to email_subject email_body greeting cc_emails
      destination_path attach_list smtp_server smtp_port s
      "fst (send_email e email_from email_to email_subject email_body greeting cc_emails
              destination_path attach_list smtp_server smtp_port s)"
      "snd (send_email e email_from email_to email_subject email_body greeting cc_emails
              destination_path attach_list smtp_server smtp_port s)"]
  by (simp add: handles_allocated_def)

text \<open>
  What the handler of \<open>jumphost_transport_connect\<close> does when its closes do not raise:
  it closes the target and then the jump host, where bound, and hands back the exception
  it was entered with.
\<close>

lemma transport_except_closes_quietly:
  assumes "\<forall>h c. fails e h (SSH_close c) = None"
  shows "transport_except e x target jumphost s =
           (x, (logger ERROR
                  (''Failed to establish jumphost transport connection: '' @ str_of x) s)
                 \<lparr>trace := trace s @
                    (case target of None \<Rightarrow> [] | Some t \<Rightarrow> [SSH_close t]) @
                    (case jumphost of None \<Rightarrow> [] | Some j \<Rightarrow> [SSH_close j])\<rparr>)"
  using assms
  by (cases target; cases jumphost)
     (simp_all add: transport_except_def close_if_bound_def step_defs)

subsection \<open>Tunnel construction\<close>

text \<open>
  C1. The handler of \<open>jumphost_transport_connect\<close> is meant to close whatever was
  constructed and then re-raise the original error, a failing close not standing in the
  way of the other close. The two closes stand unguarded in the handler: here the
  connection to the target fails, \<open>target.close()\<close> raises, the exception that reaches the
  caller is the close's and \<open>jumphost.close()\<close> (handle 0) is never attempted.
\<close>

theorem transport_connect_cleanup_error_replaces_original:
  "fst (tunnel (world target_down_close_fails) (Some ''target'') fresh) =
     Inl (Error OtherException ''close failed'') \<and>
   trace (snd (tunnel (world target_down_close_fails) (Some ''target'') fresh)) =
     [SSHClient_new 0, Load_system_host_keys 0, Set_missing_host_key_policy 0,
      SSH_connect 0 (Some ''jump'') (Some ''u'') (Some ''p'') (Some 22) None,
      Get_transport 0,
      Open_channel 0 (Some ''target'', Some 22) (Some ''jump'', Some 22),
      SSHClient_new 1, Set_missing_host_key_policy 1,
      SSH_connect 1 (Some ''target'') (Some ''du'') (Some ''dp'') (Some 22)
        (Some (Channel 0 (Some ''target'', Some 22) (Some ''jump'', Some 22))),
      SSH_close 1] \<and>
   SSH_close 0 \<notin>
     set (trace (snd (tunnel (world target_down_close_fails) (Some ''target'') fresh)))"
  by (simp add: example_defs jumphost_transport_connect_def transport_try_def
        transport_except_def close_if_bound_def step_defs)

text \<open>
  C5. With \<open>dst_host\<close> empty or \<open>None\<close>, \<open>jumphost_transport_connect\<close> raises
  \<open>ValueError\<close> and the state is the one before the call: no library call was recorded,
  whatever the other arguments and the cached sessions are.
\<close>

theorem transport_connect_empty_dst_host:
  assumes "\<not> truthy dst_host"
  shows "jumphost_transport_connect e hostname username password port
           dst_host dst_username dst_password dst_port s =
         (Inl (Error ValueError ''dst_host must be set for jumphost transport connection''), s)"
  using assms by (simp add: jumphost_transport_connect_def)

theorem transport_connect_empty_dst_host_witness:
  "tunnel (world all_succeed) (Some []) jump_cached =
     (Inl (Error ValueError ''dst_host must be set for jumphost transport connection''),
      jump_cached) \<and>
   tunnel (world all_succeed) None fresh =
     (Inl (Error ValueError ''dst_host must be set for jumphost transport connection''),
      fresh)"
  using transport_connect_empty_dst_host [of "Some []" "world all_succeed"]
        transport_connect_empty_dst_host [of None "world all_succeed"]
  by (simp add: tunnel_def)

text \<open>
  C9. A call of \<open>jumphost_transport_connect\<close> that raises, at the argument check, in
  any step of the construction or in the handler's closes, leaves \<open>_target_client\<close> and
  \<open>_jumphost_client\<close> as they were.
\<close>

theorem transport_connect_raise_keeps_cache:
  assumes "jumphost_transport_connect e hostname username password port
             dst_host dst_username dst_password dst_port s = (Inl x, s')"
  shows "target_client s' = target_client s \<and> jumphost_client s' = jumphost_client s"
proof (cases "truthy dst_host")
  case False
  with assms show ?thesis by (simp add: jumphost_transport_connect_def)
next
  case True
  obtain r s1 where tr:
    "transport_try e hostname username password port
       dst_host dst_username dst_password dst_port s = (r, s1)"
    by (cases "transport_try e hostname username password port
                 dst_host dst_username dst_password dst_port s")
  from assms True tr obtain z t j where r: "r = Inl (z, t, j)"
    and exc: "transport_except e z t j s1 = (x, s')"
    by (auto simp: jumphost_transport_connect_def logger_def
             split: option.splits sum.splits prod.splits)
  from transport_try_raises [OF tr [unfolded r]] transport_except_frame [OF exc]
  show ?thesis by simp
qed

theorem transport_connect_raise_keeps_cache_witness:
  "fst (tunnel (world target_down) (Some ''target'') jump_cached) =
     Inl (Error SSHException ''target unreachable'') \<and>
   target_client (snd (tunnel (world target_down) (Some ''target'') jump_cached)) = None \<and>
   jumphost_client (snd (tunnel (world target_down) (Some ''target'') jump_cached)) = Some 0"
proof -
  let ?r = "tunnel (world target_down) (Some ''target'') jump_cached"
  have res: "fst ?r = Inl (Error SSHException ''target unreachable'')"
    by (simp add: example_defs jumphost_transport_connect_def transport_try_def
          transport_except_def close_if_bound_def jumphost_connect_def
          jumphost_connect_try_def step_defs)
  have before: "target_client jump_cached = None" "jumphost_client jump_cached = Some 0"
    by (simp_all add: example_defs jumphost_connect_def jumphost_connect_try_def step_defs)
  have "?r = (Inl (Error SSHException ''target unreachable''), snd ?r)"
    using res by (simp add: prod_eq_iff)
  from transport_connect_raise_keeps_cache [OF this [unfolded tunnel_def]] res before
  show ?thesis by (simp add: tunnel_def)
qed

text \<open>
  C10. With a jump-host session cached and no target session, a call with a non-empty
  \<open>dst_host\<close> does not take the cached session. Its first library call constructs a new
  client, whose handle differs from the cached one, and no library call of the whole run,
  however it ends, is made on the cached session: it is neither connected, asked for its
  transport, used to open the channel, handed to the target as the owner of its socket,
  nor closed. When the call succeeds, the calls it made are exactly the nine of the
  construction, all on the two new clients and with the call's own arguments; the pair
  returned and the two slots hold the new handles, so that \<open>_jumphost_client\<close> no longer
  refers to the old session, which was left as it was.
\<close>

theorem transport_connect_ignores_cached_jumphost:
  assumes "jumphost_client s = Some j" and "target_client s = None" and "truthy dst_host"
    and "handles_allocated s"
    and "jumphost_transport_connect e hostname username password port
           dst_host dst_username dst_password dst_port s = (r, s')"
  shows "take (Suc (length (trace s))) (trace s') = trace s @ [SSHClient_new (next_handle s)] \<and>
         next_handle s \<noteq> j \<and>
         list_all (\<lambda>c. \<not> uses_handle j c) (drop (length (trace s)) (trace s')) \<and>
         SSH_close j \<notin> set (drop (length (trace s)) (trace s')) \<and>
         (\<forall>t j'. r = Inr (t, j') \<longrightarrow>
            j' = next_handle s \<and> t = Suc (next_handle s) \<and> j' \<noteq> j \<and> t \<noteq> j \<and>
            jumphost_client s' = Some j' \<and> target_client s' = Some t \<and>
            jumphost_client s' \<noteq> Some j \<and> target_client s' \<noteq> Some j \<and>
            SSH_connect j' hostname username password port None
              \<in> set (drop (length (trace s)) (trace s')) \<and>
            trace s' =
              trace s @
              [SSHClient_new j', Load_system_host_keys j', Set_missing_host_key_policy j',
               SSH_connect j' hostname username password port None,
               Get_transport j',
               Open_channel j' (dst_host, dst_port) (hostname, port),
               SSHClient_new t, Set_missing_host_key_policy t,
               SSH_connect t dst_host dst_username dst_password dst_port
                 (Some (Channel j' (dst_host, dst_port) (hostname, port)))])"
  using assms
  by (auto simp: jumphost_transport_connect_def transport_try_def transport_except_def
                 close_if_bound_def handles_allocated_def step_defs
           split: option.splits)

theorem transport_connect_ignores_cached_jumphost_witness:
  "jumphost_client jump_cached = Some 0 \<and> target_client jump_cached = None \<and>
   fst (tunnel (world all_succeed) (Some ''target'') jump_cached) = Inr (2, 1) \<and>
   jumphost_client (snd (tunnel (world all_succeed) (Some ''target'') jump_cached)) = Some 1 \<and>
   target_client (snd (tunnel (world all_succeed) (Some ''target'') jump_cached)) = Some 2 \<and>
   list_all (\<lambda>c. \<not> uses_handle 0 c)
     (drop (length (trace jump_cached))
        (trace (snd (tunnel (world all_succeed) (Some ''target'') jump_cached)))) \<and>
   SSH_close 0 \<notin>
     set (drop (length (trace jump_cached))
            (trace (snd (tunnel (world all_succeed) (Some ''target'') jump_cached)))) \<and>
   trace (snd (tunnel (world all_succeed) (Some ''target'') jump_cached)) =
     trace jump_cached @
     [SSHClient_new 1, Load_system_host_keys 1, Set_missing_host_key_policy 1,
      SSH_connect 1 (Some ''jump'') (Some ''u'') (Some ''p'') (Some 22) None,
      Get_transport 1,
      Open_channel 1 (Some ''target'', Some 22) (Some ''jump'', Some 22),
      SSHClient_new 2, Set_missing_host_key_policy 2,
      SSH_connect 2 (Some ''target'') (Some ''du'') (Some ''dp'') (Some 22)
        (Some (Channel 1 (Some ''target'', Some 22) (Some ''jump'', Some 22)))]"
proof -
  let ?r = "tunnel (world all_succeed) (Some ''target'') jump_cached"
  have before: "jumphost_client jump_cached = Some 0" "target_client jump_cached = None"
    "next_handle jump_cached = 1" "junos_device jump_cached = None"
    by (simp_all add: example_defs jumphost_connect_def jumphost_connect_try_def step_defs)
  have inv: "handles_allocated jump_cached"
    by (simp add: handles_allocated_def before)
  have res: "fst ?r = Inr (2, 1)"
    by (simp add: example_defs jumphost_transport_connect_def transport_try_def
          jumphost_connect_def jumphost_connect_try_def step_defs)
  have run: "jumphost_transport_connect (world all_succeed) (Some ''jump'') (Some ''u'')
               (Some ''p'') (Some 22) (Some ''target'') (Some ''du'') (Some ''dp'') (Some 22)
               jump_cached = (Inr (2, 1), snd ?r)"
    using res by (simp add: prod_eq_iff tunnel_def)
  from transport_connect_ignores_cached_jumphost [OF before(1) before(2) _ inv run] before res
  show ?thesis by (simp add: tunnel_def)
qed

subsection \<open>Opening twice\<close>

text \<open>
  C2, as the code has it. After a call of \<open>junos_open_connection\<close> or
  \<open>jumphost_connect\<close> that returned a handle, a second call returns that handle
  whatever its arguments are, and only adds a log record: no library call is made. For
  \<open>jumphost_transport_connect\<close> the same holds when the second call's \<open>dst_host\<close> is
  non-empty; with an empty \<open>dst_host\<close> the second call raises \<open>ValueError\<close>, since the
  argument check stands before the look at the cache.
\<close>

theorem connect_again_returns_cached:
  "(junos_open_connection e h u p pt s = (Inr d, s1) \<longrightarrow>
      junos_open_connection e h' u' p' pt' s1 =
        (Inr d, logger INFO ''Junos connection already open'' s1)) \<and>
   (jumphost_connect e h u p pt s = (Inr c, s2) \<longrightarrow>
      jumphost_connect e h' u' p' pt' s2 =
        (Inr c, logger INFO ''Jumphost connection already open'' s2)) \<and>
   (jumphost_transport_connect e h u p pt dh du dp dpt s = (Inr tj, s3) \<longrightarrow>
      jumphost_transport_connect e h' u' p' pt' dh' du' dp' dpt' s3 =
        (if truthy dh'
         then (Inr tj, logger INFO ''Jumphost transport connection already open'' s3)
         else (Inl (Error ValueError
                      ''dst_host must be set for jumphost transport connection''), s3)))"
proof (intro conjI impI)
  assume "junos_open_connection e h u p pt s = (Inr d, s1)"
  from junos_open_caches [OF this]
  show "junos_open_connection e h' u' p' pt' s1 =
          (Inr d, logger INFO ''Junos connection already open'' s1)"
    by (simp add: junos_open_connection_def)
next
  assume "jumphost_connect e h u p pt s = (Inr c, s2)"
  from jumphost_connect_caches [OF this]
  show "jumphost_connect e h' u' p' pt' s2 =
          (Inr c, logger INFO ''Jumphost connection already open'' s2)"
    by (simp add: jumphost_connect_def)
next
  assume first: "jumphost_transport_connect e h u p pt dh du dp dpt s = (Inr tj, s3)"
  obtain t j where tj: "tj = (t, j)" by (cases tj)
  from transport_connect_caches [OF first [unfolded tj]] tj
  show "jumphost_transport_connect e h' u' p' pt' dh' du' dp' dpt' s3 =
          (if truthy dh'
           then (Inr tj, logger INFO ''Jumphost transport connection already open'' s3)
           else (Inl (Error ValueError
                        ''dst_host must be set for jumphost transport connection''), s3))"
    by (simp add: jumphost_transport_connect_def)
qed

theorem connect_again_returns_cached_witness:
  "junos_open_connection (world all_succeed) None None None None junos_cached =
     (Inr 0, logger INFO ''Junos connection already open'' junos_cached) \<and>
   jumphost_connect (world all_succeed) None None None None jump_cached =
     (Inr 0, logger INFO ''Jumphost connection already open'' jump_cached) \<and>
   tunnel (world all_succeed) (Some ''other'')
       (snd (tunnel (world all_succeed) (Some ''target'') fresh)) =
     (Inr (1, 0),
      logger INFO ''Jumphost transport connection already open''
        (snd (tunnel (world all_succeed) (Some ''target'') fresh))) \<and>
   tunnel (world all_succeed) (Some [])
       (snd (tunnel (world all_succeed) (Some ''target'') fresh)) =
     (Inl (Error ValueError ''dst_host must be set for jumphost transport connection''),
      snd (tunnel (world all_succeed) (Some ''target'') fresh))"
proof -
  let ?open = "junos_open_connection (world all_succeed) (Some ''router1'') (Some ''u'')
                 (Some ''p'') (Some 22) fresh"
  let ?jump = "jumphost_connect (world all_succeed) (Some ''jump'') (Some ''u'')
                 (Some ''p'') (Some 22) fresh"
  let ?tun = "jumphost_transport_connect (world all_succeed) (Some ''jump'') (Some ''u'')
                (Some ''p'') (Some 22) (Some ''target'') (Some ''du'') (Some ''dp'')
                (Some 22) fresh"
  have a: "?open = (Inr 0, junos_cached)"
    by (simp add: example_defs junos_cached_def junos_open_connection_def junos_open_try_def
          step_defs)
  have b: "?jump = (Inr 0, jump_cached)"
    by (simp add: example_defs jumphost_connect_def jumphost_connect_try_def step_defs)
  have c: "?tun = (Inr (1, 0), snd ?tun)"
    by (simp add: example_defs jumphost_transport_connect_def transport_try_def step_defs)
  note again = connect_again_returns_cached
  have "junos_open_connection (world all_succeed) None None None None junos_cached =
          (Inr 0, logger INFO ''Junos connection already open'' junos_cached)"
    by (rule again [THEN conjunct1, THEN mp, OF a])
  moreover
  have "jumphost_connect (world all_succeed) None None None None jump_cached =
          (Inr 0, logger INFO ''Jumphost connection already open'' jump_cached)"
    by (rule again [THEN conjunct2, THEN conjunct1, THEN mp, OF b])
  moreover
  have "jumphost_transport_connect (world all_succeed) (Some ''jump'') (Some ''u'')
          (Some ''p'') (Some 22) dh (Some ''du'') (Some ''dp'') (Some 22) (snd ?tun) =
        (if truthy dh
         then (Inr (1, 0), logger INFO ''Jumphost transport connection already open'' (snd ?tun))
         else (Inl (Error ValueError
                      ''dst_host must be set for jumphost transport connection''), snd ?tun))"
    for dh
    by (rule again [THEN conjunct2, THEN conjunct2, THEN mp, OF c])
  from this [of "Some ''other''"] this [of "Some []"]
  have "tunnel (world all_succeed) (Some ''other'') (snd ?tun) =
          (Inr (1, 0), logger INFO ''Jumphost transport connection already open'' (snd ?tun))"
    and "tunnel (world all_succeed) (Some []) (snd ?tun) =
          (Inl (Error ValueError ''dst_host must be set for jumphost transport connection''),
           snd ?tun)"
    by (simp_all add: tunnel_def)
  ultimately show ?thesis by (simp add: tunnel_def)
qed

text \<open>
  C2 as stated fails for the tunnel: after a successful
  \<open>jumphost_transport_connect\<close>, a second call whose \<open>dst_host\<close> is \<open>None\<close> raises
  \<open>ValueError\<close> instead of returning the cached pair.
\<close>

theorem transport_connect_again_empty_dst_host_raises:
  "fst (tunnel (world all_succeed) (Some ''target'') fresh) = Inr (1, 0) \<and>
   target_client (snd (tunnel (world all_succeed) (Some ''target'') fresh)) = Some 1 \<and>
   jumphost_client (snd (tunnel (world all_succeed) (Some ''target'') fresh)) = Some 0 \<and>
   fst (tunnel (world all_succeed) None
          (snd (tunnel (world all_succeed) (Some ''target'') fresh))) =
     Inl (Error ValueError ''dst_host must be set for jumphost transport connection'')"
  by (simp add: example_defs jumphost_transport_connect_def transport_try_def step_defs)

subsection \<open>Closing\<close>

text \<open>
  C3, as the code has it. With a device session cached, \<open>junos_close_connection\<close>
  calls \<open>close\<close> on it, once, and never raises. When the close returns, the slot is
  cleared and the closing is logged; when the close raises, the error is logged and
  swallowed, and the slot still holds the session, because the assignment stands after the
  close inside the \<open>try\<close>. The same holds for \<open>jumphost_disconnect\<close> and a cached
  jump-host session.
\<close>

theorem close_cached_session:
  "(junos_device s = Some d \<longrightarrow>
      fst (junos_close_connection e s) = Inr () \<and>
      trace (snd (junos_close_connection e s)) = trace s @ [Device_close d] \<and>
      junos_device (snd (junos_close_connection e s)) =
        (case fails e (trace s) (Device_close d) of None \<Rightarrow> None | Some x \<Rightarrow> Some d) \<and>
      logs (snd (junos_close_connection e s)) =
        logs s @
        [case fails e (trace s) (Device_close d) of
           None \<Rightarrow> (INFO, ''Connection to '' @ dev_hostname e d @ '' closed'')
         | Some x \<Rightarrow> (ERROR, ''Error closing Junos connection: '' @ str_of x)]) \<and>
   (jumphost_client s = Some c \<longrightarrow>
      fst (jumphost_disconnect e s) = Inr () \<and>
      trace (snd (jumphost_disconnect e s)) = trace s @ [SSH_close c] \<and>
      jumphost_client (snd (jumphost_disconnect e s)) =
        (case fails e (trace s) (SSH_close c) of None \<Rightarrow> None | Some x \<Rightarrow> Some c) \<and>
      logs (snd (jumphost_disconnect e s)) =
        logs s @
        [case fails e (trace s) (SSH_close c) of
           None \<Rightarrow> (INFO, ''Jumphost connection closed'')
         | Some x \<Rightarrow> (ERROR, ''Error closing jumphost connection: '' @ str_of x)])"
  by (auto simp: junos_close_connection_def jumphost_disconnect_def step_defs
           split: option.splits)

theorem close_cached_session_witness:
  "junos_device junos_cached = Some 0 \<and>
   fst (junos_close_connection (world all_succeed) junos_cached) = Inr () \<and>
   junos_device (snd (junos_close_connection (world all_succeed) junos_cached)) = None \<and>
   jumphost_client jump_cached = Some 0 \<and>
   fst (jumphost_disconnect (world close_fails) jump_cached) = Inr () \<and>
   jumphost_client (snd (jumphost_disconnect (world close_fails) jump_cached)) = Some 0 \<and>
   logs (snd (jumphost_disconnect (world close_fails) jump_cached)) =
     logs jump_cached @ [(ERROR, ''Error closing jumphost connection: socket is closed'')]"
proof -
  have a: "junos_device junos_cached = Some 0"
    by (simp add: example_defs junos_cached_def junos_open_connection_def junos_open_try_def
          step_defs)
  have b: "jumphost_client jump_cached = Some 0"
    by (simp add: example_defs jumphost_connect_def jumphost_connect_try_def step_defs)
  from close_cached_session [of junos_cached 0 "world all_succeed", THEN conjunct1, THEN mp, OF a]
       close_cached_session [of jump_cached _ "world close_fails" 0, THEN conjunct2, THEN mp, OF b]
       a b
  show ?thesis by (simp add: world_def)
qed

text \<open>
  C3 as stated fails where the underlying close raises: the call returns without an
  exception, and the session is still cached.
\<close>

theorem close_failure_keeps_session_cached:
  "junos_device junos_cached = Some 0 \<and>
   fst (junos_close_connection (world close_fails) junos_cached) = Inr () \<and>
   junos_device (snd (junos_close_connection (world close_fails) junos_cached)) = Some 0 \<and>
   jumphost_client jump_cached = Some 0 \<and>
   fst (jumphost_disconnect (world close_fails) jump_cached) = Inr () \<and>
   jumphost_client (snd (jumphost_disconnect (world close_fails) jump_cached)) = Some 0"
  by (simp add: example_defs junos_cached_def junos_open_connection_def junos_open_try_def
        jumphost_connect_def jumphost_connect_try_def junos_close_connection_def
        jumphost_disconnect_def step_defs)

text \<open>
  C4. With nothing cached, \<open>junos_close_connection\<close> and \<open>jumphost_disconnect\<close> log a
  warning; \<open>jumphost_transport_disconnect\<close> has no such branch: on a new manager it
  returns with the state as it was, and the log is still empty.
\<close>

theorem transport_disconnect_nothing_cached_is_silent:
  "target_client fresh = None \<and> jumphost_client fresh = None \<and>
   jumphost_transport_disconnect (world all_succeed) fresh = (Inr (), fresh) \<and>
   logs (snd (jumphost_transport_disconnect (world all_succeed) fresh)) = [] \<and>
   logs (snd (junos_close_connection (world all_succeed) fresh)) =
     [(WARNING, ''No active Junos connection to close'')] \<and>
   logs (snd (jumphost_disconnect (world all_succeed) fresh)) =
     [(WARNING, ''No active jumphost connection to close'')]"
  by (simp add: example_defs jumphost_transport_disconnect_def junos_close_connection_def
        jumphost_disconnect_def step_defs)

subsection \<open>Validation before the copy\<close>

text \<open>
  C8. \<open>copy_file_local_to_remote\<close> with an empty (or absent) source or destination
  returns \<open>False\<close>, only logging an error; with both given and a source that does not
  exist it raises \<open>FileNotFoundError\<close> from the state before the call: no library call
  was made and \<open>_jumphost_client\<close> is what it was.
\<close>

theorem copy_local_validation:
  "(\<not> truthy src_path \<or> \<not> truthy dst_path \<longrightarrow>
      copy_file_local_to_remote e src_path dst_path use_jumphost s =
        (Inr False, logger ERROR ''Source and destination paths must be provided'' s)) \<and>
   (truthy (Some source) \<and> truthy dst_path \<and> \<not> path_exists e source \<longrightarrow>
      copy_file_local_to_remote e (Some source) dst_path use_jumphost s =
        (Inl (Error FileNotFoundError (''Source file not found: '' @ source)), s))"
  by (cases src_path; cases dst_path) auto

theorem copy_local_validation_witness:
  "copy_file_local_to_remote (world all_succeed) (Some []) (Some ''/var/tmp/a.txt'') True fresh =
     (Inr False, logger ERROR ''Source and destination paths must be provided'' fresh) \<and>
   copy_file_local_to_remote (world all_succeed) (Some ''/tmp/a.txt'') None True fresh =
     (Inr False, logger ERROR ''Source and destination paths must be provided'' fresh) \<and>
   copy_file_local_to_remote (world all_succeed) (Some ''/tmp/b.txt'') (Some ''/var/tmp/b.txt'')
       True fresh =
     (Inl (Error FileNotFoundError ''Source file not found: /tmp/b.txt''), fresh)"
proof -
  note v = copy_local_validation
  have "copy_file_local_to_remote (world all_succeed) (Some []) (Some ''/var/tmp/a.txt'')
          True fresh =
        (Inr False, logger ERROR ''Source and destination paths must be provided'' fresh)"
    by (rule v [THEN conjunct1, THEN mp]) simp
  moreover
  have "copy_file_local_to_remote (world all_succeed) (Some ''/tmp/a.txt'') None True fresh =
        (Inr False, logger ERROR ''Source and destination paths must be provided'' fresh)"
    by (rule v [THEN conjunct1, THEN mp]) simp
  moreover
  have "copy_file_local_to_remote (world all_succeed) (Some ''/tmp/b.txt'')
          (Some ''/var/tmp/b.txt'') True fresh =
        (Inl (Error FileNotFoundError (''Source file not found: '' @ ''/tmp/b.txt'')), fresh)"
    by (rule v [THEN conjunct2, THEN mp]) (simp add: world_def)
  ultimately show ?thesis by simp
qed

subsection \<open>E-mail validation\<close>

lemma sublist_join: "x \<in> set xs \<Longrightarrow> sublist x (join sep xs)"
proof (induction sep xs rule: join.induct)
  case (3 sep a b bs)
  show ?case
  proof (cases "x = a")
    case True
    then show ?thesis by simp
  next
    case False
    with 3 have "sublist x (join sep (b # bs))" by simp
    then obtain ps ss where "join sep (b # bs) = ps @ x @ ss"
      by (auto simp: sublist_def)
    then have "join sep (a # b # bs) = (a @ sep @ ps) @ x @ ss" by simp
    then show ?thesis unfolding sublist_def by blast
  qed
qed simp_all

lemma sublist_after_prefix: "sublist x m \<Longrightarrow> sublist x (p @ m)"
  by (metis append_assoc sublist_def)

text \<open>
  C6. If one of the five required parameters is empty (or \<open>None\<close>), \<open>send_email\<close>
  raises \<open>ValueError\<close> from the state before the call, so nothing was composed, read or
  sent. The message is the fixed prefix followed by the comma-separated list of missing
  names; a name is in that list exactly when its parameter is empty, and every such name
  occurs in the message.
\<close>

theorem send_email_names_every_missing_parameter:
  assumes "\<not> (truthy email_from \<and> truthy email_to \<and> truthy email_subject \<and>
              truthy greeting \<and> truthy email_body)"
  shows "\<exists>names m.
           send_email e email_from email_to email_subject email_body greeting cc_emails
             destination_path attach_list smtp_server smtp_port s =
             (Inl (Error ValueError m), s) \<and>
           m = ''Missing required email parameters: '' @ join '', '' names \<and>
           (''email_from'' \<in> set names) = (\<not> truthy email_from) \<and>
           (''email_to'' \<in> set names) = (\<not> truthy email_to) \<and>
           (''email_subject'' \<in> set names) = (\<not> truthy email_subject) \<and>
           (''greeting'' \<in> set names) = (\<not> truthy greeting) \<and>
           (''email_body'' \<in> set names) = (\<not> truthy email_body) \<and>
           (\<forall>n \<in> set names. sublist n m)"
proof -
  let ?names = "missing_params email_from email_to email_subject greeting email_body"
  let ?m = "''Missing required email parameters: '' @ join '', '' ?names"
  have "send_email e email_from email_to email_subject email_body greeting cc_emails
          destination_path attach_list smtp_server smtp_port s =
        (Inl (Error ValueError ?m), s)"
    using assms by (auto simp: send_email_def)
  moreover have "(''email_from'' \<in> set ?names) = (\<not> truthy email_from)"
    "(''email_to'' \<in> set ?names) = (\<not> truthy email_to)"
    "(''email_subject'' \<in> set ?names) = (\<not> truthy email_subject)"
    "(''greeting'' \<in> set ?names) = (\<not> truthy greeting)"
    "(''email_body'' \<in> set ?names) = (\<not> truthy email_body)"
    by (auto simp: missing_params_def)
  moreover have "\<forall>n \<in> set ?names. sublist n ?m"
    by (blast intro: sublist_after_prefix sublist_join)
  ultimately show ?thesis by blast
qed

theorem send_email_names_every_missing_parameter_witness:
  "mail (world all_succeed) None (Some []) (Some ''/tmp'') [''a.txt''] =
     (Inl (Error ValueError ''Missing required email parameters: email_to, greeting''), fresh) \<and>
   sublist ''email_to'' ''Missing required email parameters: email_to, greeting'' \<and>
   sublist ''greeting'' ''Missing required email parameters: email_to, greeting''"
proof -
  let ?m = "''Missing required email parameters: email_to, greeting''"
  have run: "mail (world all_succeed) None (Some []) (Some ''/tmp'') [''a.txt''] =
               (Inl (Error ValueError ?m), fresh)"
    by (simp add: mail_def send_email_def missing_params_def)
  have "\<not> (truthy (Some ''ops@example.com'') \<and> truthy None \<and> truthy (Some ''Report'') \<and>
            truthy (Some []) \<and> truthy (Some ''Body''))"
    by simp
  from send_email_names_every_missing_parameter [OF this, of "world all_succeed" None
         "Some ''/tmp''" "Some [''a.txt'']" "''localhost''" 25 fresh]
  obtain names m where
    m: "mail (world all_succeed) None (Some []) (Some ''/tmp'') [''a.txt''] =
          (Inl (Error ValueError m), fresh)"
    and names: "''email_to'' \<in> set names" "''greeting'' \<in> set names"
    and sub: "\<forall>n \<in> set names. sublist n m"
    unfolding mail_def by auto
  from m run have "m = ?m" by simp
  with names sub run show ?thesis by blast
qed

subsection \<open>Attachments\<close>





lemma trace_logger [simp]: "trace (logger lvl m s) = trace s"
  by (simp add: logger_def)












end
